theory Spec2Isabelle
  imports Complex_Main "HOL-Library.AList"
begin

section \<open>The exclusion store (lib/exclusion\_manager.py)\<close>

text \<open>
  The store is a JSON file holding a dictionary from instance ids to records. A Python
  dictionary keeps its keys in insertion order and holds every key once, so it is an
  association list; \<open>d[k] = v\<close> is \<open>AList.update\<close>, \<open>del d[k]\<close> is \<open>AList.delete\<close>,
  \<open>d.get(k)\<close> is \<open>map_of\<close>. The records are read with \<open>info.get(field, default)\<close>
  throughout, so every field may be absent. Timestamps are Python floats, taken here as
  reals (rounding is not modelled); timeouts are integers.
\<close>

record exclusion_info =
  node_name :: "string option"
  error_type :: "string option"
  start_time :: "real option"
  timeout :: "int option"
  readable_time :: "string option"
  expires_at :: "string option"

type_synonym exclusions = "(string \<times> exclusion_info) list"

text \<open>
  The file as \<open>_load_exclusions\<close> can find it: absent, present but failing to open or
  read (IOError), present with text that is no JSON (JSONDecodeError), or holding a
  dictionary.
\<close>

datatype file_state = Missing | Unreadable | Malformed | Content exclusions

datatype io_error = IOError | JSONDecodeError

text \<open>
  A write in \<open>_save_exclusions\<close> either succeeds, or raises IOError before the file is
  opened for writing (the old file stays), or raises it after the file was truncated
  (what is left is no JSON).
\<close>

datatype write_outcome = Written | Open_Failed | Dump_Failed

text \<open>
  What the operating system answers during one store operation: the value of
  \<open>time.time()\<close>, the fate of the write should the operation write, and the text
  \<open>datetime.fromtimestamp(t).strftime('%Y-%m-%d %H:%M:%S')\<close> for a timestamp.
\<close>

record os =
  time_time :: real
  disk_write :: write_outcome
  strftime :: "real \<Rightarrow> string"

record manager =
  exclusion_file :: string
  default_timeout :: int

definition ExclusionManager :: "string \<Rightarrow> int \<Rightarrow> manager" where
  "ExclusionManager file dflt = \<lparr>exclusion_file = file, default_timeout = dflt\<rparr>"

text \<open>The constructor's defaults: \<open>ExclusionManager()\<close>.\<close>

definition ExclusionManager_default :: manager where
  "ExclusionManager_default = ExclusionManager ''./gpu_monitor_exclusions.json'' 1800"

definition path_exists :: "file_state \<Rightarrow> bool" where
  "path_exists fs = (fs \<noteq> Missing)"

text \<open>The body of the \<open>try\<close> in \<open>_load_exclusions\<close>: open the file and parse it.\<close>

fun json_load :: "file_state \<Rightarrow> io_error + exclusions" where
  "json_load Missing = Inl IOError"
| "json_load Unreadable = Inl IOError"
| "json_load Malformed = Inl JSONDecodeError"
| "json_load (Content d) = Inr d"

definition load_exclusions :: "file_state \<Rightarrow> exclusions" where
  "load_exclusions fs =
     (if \<not> path_exists fs then []
      else (case json_load fs of Inl e \<Rightarrow> [] | Inr d \<Rightarrow> d))"

definition save_exclusions :: "os \<Rightarrow> exclusions \<Rightarrow> file_state \<Rightarrow> bool \<times> file_state" where
  "save_exclusions sys d fs =
     (case disk_write sys of
        Written \<Rightarrow> (True, Content d)
      | Open_Failed \<Rightarrow> (False, fs)
      | Dump_Failed \<Rightarrow> (False, Malformed))"

text \<open>\<open>instance_id in exclusions\<close>.\<close>

definition has_key :: "exclusions \<Rightarrow> string \<Rightarrow> bool" where
  "has_key d k = (map_of d k \<noteq> None)"

text \<open>\<open>timeout or self.default_timeout\<close>: \<open>None\<close> and \<open>0\<close> are both falsy.\<close>

definition timeout_or_default :: "manager \<Rightarrow> int option \<Rightarrow> int" where
  "timeout_or_default mgr t =
     (case t of None \<Rightarrow> default_timeout mgr
      | Some n \<Rightarrow> if n = 0 then default_timeout mgr else n)"

definition new_record :: "os \<Rightarrow> string \<Rightarrow> string \<Rightarrow> int \<Rightarrow> exclusion_info" where
  "new_record sys nd et tmo =
     \<lparr>node_name = Some nd, error_type = Some et,
      start_time = Some (time_time sys), timeout = Some tmo,
      readable_time = Some (strftime sys (time_time sys)),
      expires_at = Some (strftime sys (time_time sys + real_of_int tmo))\<rparr>"

definition add_exclusion ::
  "manager \<Rightarrow> os \<Rightarrow> file_state \<Rightarrow> string \<Rightarrow> string \<Rightarrow> string \<Rightarrow> int option
     \<Rightarrow> bool \<times> file_state" where
  "add_exclusion mgr sys fs instance_id nd et t =
     (let d = load_exclusions fs in
      if has_key d instance_id then (False, fs)
      else
        let tmo = timeout_or_default mgr t;
            d' = AList.update instance_id (new_record sys nd et tmo) d
        in (if fst (save_exclusions sys d' fs)
            then (True, snd (save_exclusions sys d' fs))
            else (False, snd (save_exclusions sys d' fs))))"


definition is_excluded :: "file_state \<Rightarrow> string \<Rightarrow> bool" where
  "is_excluded fs instance_id = has_key (load_exclusions fs) instance_id"

definition get_exclusion_info :: "file_state \<Rightarrow> string \<Rightarrow> exclusion_info option" where
  "get_exclusion_info fs instance_id = map_of (load_exclusions fs) instance_id"

text \<open>
  The test of the sweep's loop:
  \<open>current_time - info.get('start_time', 0) > info.get('timeout', self.default_timeout)\<close>.
\<close>

definition expired :: "manager \<Rightarrow> real \<Rightarrow> exclusion_info \<Rightarrow> bool" where
  "expired mgr current_time info =
     (let st = (case start_time info of None \<Rightarrow> 0 | Some s \<Rightarrow> s);
          tmo = (case timeout info of None \<Rightarrow> default_timeout mgr | Some n \<Rightarrow> n)
      in current_time - st > real_of_int tmo)"

definition expired_instances :: "manager \<Rightarrow> real \<Rightarrow> exclusions \<Rightarrow> string list" where
  "expired_instances mgr current_time d =
     map fst (filter (\<lambda>p. expired mgr current_time (snd p)) d)"

text \<open>
  \<open>cleanup_expired\<close> deletes the collected keys one by one, saves only when there was
  one, does not look at what the save returned, and returns how many keys it collected.
\<close>

definition cleanup_expired :: "manager \<Rightarrow> os \<Rightarrow> file_state \<Rightarrow> nat \<times> file_state" where
  "cleanup_expired mgr sys fs =
     (let d = load_exclusions fs;
          ks = expired_instances mgr (time_time sys) d;
          d' = fold AList.delete ks d
      in (length ks, if ks \<noteq> [] then snd (save_exclusions sys d' fs) else fs))"

text \<open>A Python dictionary is truthy when it has a key.\<close>

definition info_truthy :: "exclusion_info \<Rightarrow> bool" where
  "info_truthy info =
     (node_name info \<noteq> None \<or> error_type info \<noteq> None \<or> start_time info \<noteq> None \<or>
      timeout info \<noteq> None \<or> readable_time info \<noteq> None \<or> expires_at info \<noteq> None)"

definition get_str :: "string option \<Rightarrow> string" where
  "get_str v = (case v of None \<Rightarrow> ''unknown'' | Some s \<Rightarrow> s)"

definition skip_reason :: "exclusion_info \<Rightarrow> string" where
  "skip_reason info =
     ''Reason: '' @ get_str (error_type info) @
     '' Handling in Progress (Exclusion Time: '' @ get_str (readable_time info) @ '')''"

definition should_monitor ::
  "manager \<Rightarrow> os \<Rightarrow> file_state \<Rightarrow> string \<Rightarrow> string
     \<Rightarrow> (bool \<times> string option) \<times> file_state" where
  "should_monitor mgr sys fs instance_id nd =
     (let fs1 = snd (cleanup_expired mgr sys fs) in
      if is_excluded fs1 instance_id then
        (case get_exclusion_info fs1 instance_id of
           None \<Rightarrow> ((True, None), fs1)
         | Some info \<Rightarrow>
             if info_truthy info then ((False, Some (skip_reason info)), fs1)
             else ((True, None), fs1))
      else ((True, None), fs1))"

definition pause_instance ::
  "manager \<Rightarrow> os \<Rightarrow> file_state \<Rightarrow> string \<Rightarrow> string \<Rightarrow> string \<Rightarrow> int option
     \<Rightarrow> bool \<times> file_state" where
  "pause_instance mgr sys fs instance_id nd reason t =
     (if fst (add_exclusion mgr sys fs instance_id nd reason t)
      then (True, snd (add_exclusion mgr sys fs instance_id nd reason t))
      else (False, snd (add_exclusion mgr sys fs instance_id nd reason t)))"







section \<open>The monitor (dcgm-monitor-and-auto-recover.py)\<close>

text \<open>
  The requests the monitor hands to \<open>ErrorHandlerDispatch\<close>, with their arguments.
  Each of the three methods catches every exception of its own and returns a dictionary
  the monitor only logs, so a request is all the monitor decides.
\<close>

datatype call =
    Send_cloudwatch_metrics string int string string
  | Call_replace_script string string int
  | Call_reboot_script string string int bool

datatype exn = KeyError string | ValueError string | Raised string

text \<open>
  The dictionary the classifier returns; \<open>parsed_error['error_class']\<close> raises KeyError
  when the key is absent.
\<close>

record parsed_error =
  error_class :: "string option"
  error_count :: "int option"
  error_gpu_id :: "int option"

text \<open>
  \<open>parse_gpu_metric_info\<close> calls an external model: it raises, or returns a JSON value
  that is no dictionary, or returns a dictionary.
\<close>

datatype parse_result = Parse_raised string | Parse_other | Parse_dict parsed_error

text \<open>What the loop of \<open>monitor_all_nodes\<close> writes: \<open>print("---")\<close> or the logged exception.\<close>

datatype out_line = Print_separator | Log_error string exn

text \<open>
  The collaborators of one polling cycle. \<open>os_at n\<close> is what the operating system
  answers during the \<open>n\<close>-th store operation of the run; the shell functions return the
  pair of \<open>_run_shell_command\<close> (success, stripped output).
\<close>

record env =
  os_at :: "nat \<Rightarrow> os"
  dcgm_pods_with_nodes :: "(string \<times> string) list"
  shell_get_instance_id :: "string \<Rightarrow> bool \<times> string"
  shell_query_dcgm_metrics :: "string \<Rightarrow> string \<Rightarrow> bool \<times> string"
  parse_gpu_metric_info :: "string \<Rightarrow> parse_result"

record world =
  store :: file_state
  calls :: "call list"
  outputs :: "out_line list"
  ticks :: nat

text \<open>Python's \<open>sub in s\<close> on strings.\<close>

fun str_in :: "string \<Rightarrow> string \<Rightarrow> bool" where
  "str_in sub [] = (sub = [])"
| "str_in sub (c # cs) = (take (length sub) (c # cs) = sub \<or> str_in sub cs)"

text \<open>
  The class tags the classifier is asked to choose from (the prompt of
  lib/metrics\_processor\_llm.py), and the tiers their names carry.
\<close>

definition error_classes :: "string list" where
  "error_classes =
     [''XID_CRITICAL_999'', ''XID_CRITICAL_79'', ''XID_CRITICAL_74'',
      ''XID_WARNING_43'', ''XID_WARNING_62'', ''XID_WARNING_31'',
      ''XID_ERROR'', ''ECC_ERROR'', ''GPU_HEALTH_WARNING'', ''GPU_HEALTH_ERROR'',
      ''HEALTHY'']"

definition warning_tier :: "string \<Rightarrow> bool" where
  "warning_tier c = (c \<in> set error_classes \<and> str_in ''WARNING'' c)"


definition get_instance_id :: "env \<Rightarrow> string \<Rightarrow> string" where
  "get_instance_id e nd =
     (let r = shell_get_instance_id e nd
      in if fst r \<and> snd r \<noteq> [] then snd r else nd)"

definition query_dcgm_metrics :: "env \<Rightarrow> string \<Rightarrow> string \<Rightarrow> string option" where
  "query_dcgm_metrics e pod nd =
     (let r = shell_query_dcgm_metrics e pod nd
      in if fst r then Some (snd r) else None)"

definition process_metrics_llm :: "env \<Rightarrow> string \<Rightarrow> exn + parsed_error" where
  "process_metrics_llm e metrics =
     (case parse_gpu_metric_info e metrics of
        Parse_raised msg \<Rightarrow> Inl (Raised msg)
      | Parse_other \<Rightarrow> Inl (ValueError ''LLM Result Parse Failed'')
      | Parse_dict d \<Rightarrow> Inr d)"

text \<open>
  The monitor owns \<open>ExclusionManager()\<close>, the manager with the constructor's defaults.
  A store operation reads the clock at most once and writes at most once; the counter
  \<open>ticks\<close> counts the store operations of the run and says which answer of the
  operating system the next one gets.
\<close>

definition exclusion_manager_add ::
  "env \<Rightarrow> string \<Rightarrow> string \<Rightarrow> string \<Rightarrow> int \<Rightarrow> world \<Rightarrow> world" where
  "exclusion_manager_add e instance_id nd et tmo w =
     w\<lparr>store := snd (add_exclusion ExclusionManager_default (os_at e (ticks w)) (store w)
                        instance_id nd et (Some tmo)),
       ticks := Suc (ticks w)\<rparr>"

definition dispatch :: "call \<Rightarrow> world \<Rightarrow> world" where
  "dispatch c w = w\<lparr>calls := calls w @ [c]\<rparr>"

text \<open>The second, effective definition of \<open>handle_gpu_error\<close> in the class.\<close>

definition handle_gpu_error ::
  "env \<Rightarrow> world \<Rightarrow> parsed_error \<Rightarrow> string \<Rightarrow> string \<Rightarrow> exn + world" where
  "handle_gpu_error e w pe nd instance_id =
     (case error_class pe of
        None \<Rightarrow> Inl (KeyError ''error_class'')
      | Some ec \<Rightarrow>
          (case error_count pe of
             None \<Rightarrow> Inl (KeyError ''error_count'')
           | Some n \<Rightarrow>
               let w1 = (if ''HEALTHY'' \<noteq> ec
                         then dispatch (Send_cloudwatch_metrics ec n nd instance_id) w
                         else w)
               in if str_in ''XID'' ec \<and> n > 5 then
                    Inr (dispatch (Call_replace_script nd instance_id 900)
                          (exclusion_manager_add e instance_id nd ec 900 w1))
                  else if str_in ''XID'' ec \<and> n \<le> 5 then
                    Inr (dispatch (Call_reboot_script nd instance_id 30 True)
                          (exclusion_manager_add e instance_id nd ec 200 w1))
                  else Inr w1))"

definition monitor_single_node ::
  "env \<Rightarrow> world \<Rightarrow> string \<Rightarrow> string \<Rightarrow> world \<times> (exn + bool)" where
  "monitor_single_node e w pod nd =
     (let instance_id = get_instance_id e nd;
          r = should_monitor ExclusionManager_default (os_at e (ticks w)) (store w)
                instance_id nd;
          w1 = w\<lparr>store := snd r, ticks := Suc (ticks w)\<rparr>
      in if \<not> fst (fst r) then (w1, Inr True)
         else
           (case query_dcgm_metrics e pod nd of
              None \<Rightarrow> (w1, Inr False)
            | Some metrics \<Rightarrow>
                if metrics = [] then (w1, Inr False)
                else
                  (case process_metrics_llm e metrics of
                     Inl x \<Rightarrow> (w1, Inl x)
                   | Inr error_detail \<Rightarrow>
                       (case error_class error_detail of
                          None \<Rightarrow> (w1, Inl (KeyError ''error_class''))
                        | Some ec \<Rightarrow>
                            if ''HEALTHY'' \<noteq> ec then
                              (case handle_gpu_error e w1 error_detail nd instance_id of
                                 Inl x \<Rightarrow> (w1, Inl x)
                               | Inr w2 \<Rightarrow> (w2, Inr True))
                            else (w1, Inr True)))))"

text \<open>
  The body of the loop: \<open>try: monitor_single_node(...); print("---")\<close> with
  \<open>except Exception\<close>, which catches every exception of the model.
\<close>

definition monitor_node_guarded ::
  "env \<Rightarrow> world \<Rightarrow> string \<times> string \<Rightarrow> exn + world" where
  "monitor_node_guarded e w p =
     (case monitor_single_node e w (fst p) (snd p) of
        (w1, Inr b) \<Rightarrow> Inr (w1\<lparr>outputs := outputs w1 @ [Print_separator]\<rparr>)
      | (w1, Inl x) \<Rightarrow> Inr (w1\<lparr>outputs := outputs w1 @ [Log_error (snd p) x]\<rparr>))"

text \<open>A \<open>for\<close> loop: an exception leaving the body ends it.\<close>

fun monitor_loop :: "env \<Rightarrow> (string \<times> string) list \<Rightarrow> world \<Rightarrow> exn + world" where
  "monitor_loop e [] w = Inr w"
| "monitor_loop e (p # ps) w =
     (case monitor_node_guarded e w p of
        Inl x \<Rightarrow> Inl x
      | Inr w1 \<Rightarrow> monitor_loop e ps w1)"

definition monitor_all_nodes :: "env \<Rightarrow> world \<Rightarrow> exn + world" where
  "monitor_all_nodes e w =
     (let pods_info = dcgm_pods_with_nodes e
      in if pods_info = [] then Inr w else monitor_loop e pods_info w)"

section \<open>Sample inputs\<close>

definition test_strftime :: "real \<Rightarrow> string" where
  "test_strftime t = ''2025-07-04 15:16:22''"

definition test_os :: "real \<Rightarrow> write_outcome \<Rightarrow> os" where
  "test_os t wo = \<lparr>time_time = t, disk_write = wo, strftime = test_strftime\<rparr>"

definition test_info :: exclusion_info where
  "test_info =
     \<lparr>node_name = Some ''node-1'', error_type = Some ''CRITICAL_X'',
      start_time = Some 0, timeout = Some 900,
      readable_time = Some ''1970-01-01 00:00:00'',
      expires_at = Some ''1970-01-01 00:15:00''\<rparr>"

definition test_store :: file_state where
  "test_store = Content [(''R1'', test_info)]"

definition test_parse :: "string \<Rightarrow> parse_result" where
  "test_parse m =
     (if m = ''metrics-node-3'' then Parse_raised ''read timeout''
      else if m = ''metrics-node-5'' then
        Parse_dict \<lparr>error_class = Some ''HEALTHY'', error_count = Some 0,
                    error_gpu_id = Some 0\<rparr>
      else
        Parse_dict \<lparr>error_class = Some ''XID_ERROR'', error_count = Some 1,
                    error_gpu_id = Some 0\<rparr>)"

definition test_env :: env where
  "test_env =
     \<lparr>os_at = (\<lambda>n. test_os (1000 + real n) Written),
      dcgm_pods_with_nodes =
        [(''pod-1'', ''node-1''), (''pod-2'', ''node-2''), (''pod-3'', ''node-3''),
         (''pod-4'', ''node-4'')],
      shell_get_instance_id = (\<lambda>nd. (True, ''i-'' @ nd)),
      shell_query_dcgm_metrics =
        (\<lambda>pod nd. if nd = ''node-2'' then (False, []) else (True, ''metrics-'' @ nd)),
      parse_gpu_metric_info = test_parse\<rparr>"

definition test_world :: world where
  "test_world = \<lparr>store = Missing, calls = [], outputs = [], ticks = 0\<rparr>"

section \<open>Properties of the exclusion store\<close>

subsection \<open>Dictionaries\<close>


lemma fold_delete_filter:
  "fold AList.delete ks d = filter (\<lambda>p. fst p \<notin> set ks) d"
proof (induction ks arbitrary: d)
  case Nil
  then show ?case by simp
next
  case (Cons k ks)
  have "fold AList.delete (k # ks) d = fold AList.delete ks (AList.delete k d)"
    by simp
  also have "\<dots> = filter (\<lambda>p. fst p \<notin> set ks) (AList.delete k d)"
    by (rule Cons.IH)
  also have "\<dots> = filter (\<lambda>p. fst p \<notin> set (k # ks)) d"
    by (auto simp: AList.delete_eq intro: filter_cong)
  finally show ?case .
qed

text \<open>The operations keep a dictionary a dictionary: every key once.\<close>

lemma distinct_keys_update:
  "distinct (map fst d) \<Longrightarrow> distinct (map fst (AList.update k v d))"
  by (rule distinct_update)

lemma distinct_keys_swept:
  "distinct (map fst d) \<Longrightarrow> distinct (map fst (fold AList.delete ks d))"
  by (simp add: fold_delete_filter distinct_map_filter)

subsection \<open>Loading and saving\<close>

lemma load_Content [simp]: "load_exclusions (Content d) = d"
  by (simp add: load_exclusions_def path_exists_def)


lemma save_Written [simp]:
  "disk_write sys = Written \<Longrightarrow> save_exclusions sys d fs = (True, Content d)"
  by (simp add: save_exclusions_def)


lemma add_exclusion_succeeds:
  "fst (add_exclusion mgr sys fs rid nd et t)
     \<longleftrightarrow> \<not> has_key (load_exclusions fs) rid \<and> disk_write sys = Written"
  by (cases "disk_write sys") (simp_all add: add_exclusion_def Let_def save_exclusions_def)

lemma add_exclusion_fresh:
  assumes "\<not> has_key (load_exclusions fs) rid" and "disk_write sys = Written"
  shows "map_of (load_exclusions (snd (add_exclusion mgr sys fs rid nd et t))) rid
           = Some (new_record sys nd et (timeout_or_default mgr t))"
  using assms by (simp add: add_exclusion_def Let_def update_conv')

subsection \<open>The sweep\<close>


lemma map_of_swept:
  assumes "map_of d k = Some info" "expired mgr t info"
  shows "map_of (fold AList.delete (expired_instances mgr t d) d) k = None"
proof -
  from assms(1) have "(k, info) \<in> set d" by (rule map_of_SomeD)
  with assms(2) have "k \<in> set (expired_instances mgr t d)"
    by (force simp: expired_instances_def)
  then show ?thesis
    by (auto simp: fold_delete_filter map_of_eq_None_iff)
qed

lemma cleanup_keys_subset:
  "fst ` set (load_exclusions (snd (cleanup_expired mgr sys fs)))
     \<subseteq> fst ` set (load_exclusions fs)"
proof (cases "disk_write sys")
  case Written
  then show ?thesis
    by (auto simp: cleanup_expired_def Let_def fold_delete_filter)
next
  case Open_Failed
  then show ?thesis
    by (simp add: cleanup_expired_def Let_def save_exclusions_def)
next
  case Dump_Failed
  then show ?thesis
    by (simp add: cleanup_expired_def Let_def save_exclusions_def load_exclusions_def
        path_exists_def)
qed

section \<open>Properties of the monitor\<close>

subsection \<open>The class tags\<close>

lemma error_classes_mem:
  "c \<in> set error_classes \<longleftrightarrow>
     c = ''XID_CRITICAL_999'' \<or> c = ''XID_CRITICAL_79'' \<or> c = ''XID_CRITICAL_74'' \<or>
     c = ''XID_WARNING_43'' \<or> c = ''XID_WARNING_62'' \<or> c = ''XID_WARNING_31'' \<or>
     c = ''XID_ERROR'' \<or> c = ''ECC_ERROR'' \<or> c = ''GPU_HEALTH_WARNING'' \<or>
     c = ''GPU_HEALTH_ERROR'' \<or> c = ''HEALTHY''"
  unfolding error_classes_def by (simp only: list.set insert_iff empty_iff simp_thms)


lemma warning_tier_not_healthy:
  assumes "warning_tier c"
  shows "''HEALTHY'' \<noteq> c"
proof -
  from assms have m: "c \<in> set error_classes" and s: "str_in ''WARNING'' c"
    by (simp_all only: warning_tier_def)
  from m s show ?thesis
    unfolding error_classes_mem by (elim disjE) simp_all
qed

subsection \<open>The escalation policy, branch by branch\<close>

lemma handle_gpu_error_XID:
  assumes "str_in ''XID'' c" and "''HEALTHY'' \<noteq> c"
  shows "handle_gpu_error e w \<lparr>error_class = Some c, error_count = Some n, error_gpu_id = g\<rparr>
           nd rid =
         Inr \<lparr>store = snd (add_exclusion ExclusionManager_default (os_at e (ticks w)) (store w)
                          rid nd c (Some (if 5 < n then 900 else 200))),
              calls = calls w @
                [Send_cloudwatch_metrics c n nd rid,
                 if 5 < n then Call_replace_script nd rid 900
                 else Call_reboot_script nd rid 30 True],
              outputs = outputs w, ticks = Suc (ticks w)\<rparr>"
  using assms
  by (simp add: handle_gpu_error_def dispatch_def exclusion_manager_add_def)

lemma handle_gpu_error_other:
  assumes "\<not> str_in ''XID'' c" and "''HEALTHY'' \<noteq> c"
  shows "handle_gpu_error e w \<lparr>error_class = Some c, error_count = Some n, error_gpu_id = g\<rparr>
           nd rid =
         Inr \<lparr>store = store w, calls = calls w @ [Send_cloudwatch_metrics c n nd rid],
              outputs = outputs w, ticks = ticks w\<rparr>"
  using assms
  by (simp add: handle_gpu_error_def dispatch_def)

lemma handle_gpu_error_healthy:
  "handle_gpu_error e w
     \<lparr>error_class = Some ''HEALTHY'', error_count = Some n, error_gpu_id = g\<rparr> nd rid = Inr w"
  by (simp add: handle_gpu_error_def)

subsection \<open>One node, and the loop over the nodes\<close>

lemma should_monitor_store:
  "snd (should_monitor mgr sys fs rid nd) = snd (cleanup_expired mgr sys fs)"
  by (simp add: should_monitor_def Let_def split: option.splits)

lemma handle_gpu_error_outputs:
  "handle_gpu_error e w pe nd rid = Inr w2 \<Longrightarrow> outputs w2 = outputs w"
  by (auto simp: handle_gpu_error_def dispatch_def exclusion_manager_add_def Let_def
      split: option.splits if_splits)

lemma monitor_single_node_outputs:
  "outputs (fst (monitor_single_node e w pod nd)) = outputs w"
  by (auto simp: monitor_single_node_def Let_def dest: handle_gpu_error_outputs
      split: option.splits sum.splits)

lemma monitor_node_guarded_returns:
  "\<exists>w1. monitor_node_guarded e w p = Inr w1
        \<and> length (outputs w1) = Suc (length (outputs w))"
proof (cases "monitor_single_node e w (fst p) (snd p)")
  case (Pair w1 r)
  then have "outputs w1 = outputs w"
    using monitor_single_node_outputs [of e w "fst p" "snd p"] by simp
  with Pair show ?thesis
    by (cases r) (simp_all add: monitor_node_guarded_def)
qed

lemma monitor_loop_returns:
  "\<exists>w'. monitor_loop e ps w = Inr w'
        \<and> length (outputs w') = length (outputs w) + length ps"
proof (induction ps arbitrary: w)
  case Nil
  then show ?case by simp
next
  case (Cons p ps)
  obtain w1 where g: "monitor_node_guarded e w p = Inr w1"
    and l: "length (outputs w1) = Suc (length (outputs w))"
    using monitor_node_guarded_returns by blast
  obtain w' where "monitor_loop e ps w1 = Inr w'"
    and "length (outputs w') = length (outputs w1) + length ps"
    using Cons.IH by blast
  with g l show ?case by simp
qed

section \<open>The claims\<close>

text \<open>
  C1 (as amended). For every descriptor whose class is a WARNING-tier tag,
  \<open>handle_gpu_error\<close> returns normally and requests one metric data point. When the tag
  contains \<open>XID\<close> and the count is at most 5 it also asks the store for a record lasting
  200 seconds and requests a reboot; when the tag contains \<open>XID\<close> and the count exceeds 5
  it asks for a record lasting 900 seconds and requests a replacement; when the tag does
  not contain \<open>XID\<close> (\<open>GPU_HEALTH_WARNING\<close>) it does nothing beyond the metric: the store
  is not touched and no remediation is requested.
\<close>

theorem warning_tier_policy:
  assumes "warning_tier c"
  shows "handle_gpu_error e w \<lparr>error_class = Some c, error_count = Some n, error_gpu_id = g\<rparr>
           nd rid =
         Inr (if str_in ''XID'' c then
                \<lparr>store = snd (add_exclusion ExclusionManager_default (os_at e (ticks w))
                                (store w) rid nd c (Some (if 5 < n then 900 else 200))),
                 calls = calls w @
                   [Send_cloudwatch_metrics c n nd rid,
                    if 5 < n then Call_replace_script nd rid 900
                    else Call_reboot_script nd rid 30 True],
                 outputs = outputs w, ticks = Suc (ticks w)\<rparr>
              else
                \<lparr>store = store w, calls = calls w @ [Send_cloudwatch_metrics c n nd rid],
                 outputs = outputs w, ticks = ticks w\<rparr>)"
proof -
  from assms have h: "''HEALTHY'' \<noteq> c" by (rule warning_tier_not_healthy)
  show ?thesis
  proof (cases "str_in ''XID'' c")
    case True
    then show ?thesis using handle_gpu_error_XID [OF True h] by simp
  next
    case False
    then show ?thesis using handle_gpu_error_other [OF False h] by simp
  qed
qed

theorem warning_tier_policy_witness:
  "warning_tier ''XID_WARNING_43''
   \<and> handle_gpu_error test_env test_world
        \<lparr>error_class = Some ''XID_WARNING_43'', error_count = Some 2, error_gpu_id = Some 0\<rparr>
        ''node-1'' ''i-1'' =
       Inr \<lparr>store = Content [(''i-1'', new_record (test_os 1000 Written) ''node-1''
                                 ''XID_WARNING_43'' 200)],
            calls = [Send_cloudwatch_metrics ''XID_WARNING_43'' 2 ''node-1'' ''i-1'',
                     Call_reboot_script ''node-1'' ''i-1'' 30 True],
            outputs = [], ticks = 1\<rparr>"
proof -
  have h: "warning_tier ''XID_WARNING_43''"
    by (simp add: warning_tier_def error_classes_def)
  have x: "str_in ''XID'' ''XID_WARNING_43''" by simp
  have a: "add_exclusion ExclusionManager_default (test_os 1000 Written) Missing ''i-1''
      ''node-1'' ''XID_WARNING_43'' (Some 200)
      = (True, Content [(''i-1'', new_record (test_os 1000 Written) ''node-1''
                                 ''XID_WARNING_43'' 200)])"
    by (simp add: add_exclusion_def load_exclusions_def path_exists_def has_key_def
        timeout_or_default_def save_exclusions_def test_os_def)
  have o: "os_at test_env 0 = test_os 1000 Written"
    by (simp add: test_env_def)
  have w: "store test_world = Missing" "calls test_world = []" "outputs test_world = []"
    "ticks test_world = 0"
    by (simp_all add: test_world_def)
  note th = warning_tier_policy [OF h, of test_env test_world 2 "Some 0" "''node-1''" "''i-1''"]
  show ?thesis
    using h th by (simp add: x o w a)
qed

text \<open>
  The claim as stated fails twice. \<open>GPU_HEALTH_WARNING\<close> is a WARNING-tier tag without
  \<open>XID\<close>: the metric is requested, and neither a reboot nor a record. And
  \<open>XID_WARNING_43\<close> with a count of 7 gets the replacement and the record of 900
  seconds, not the reboot and the short record.
\<close>

theorem warning_tier_policy_counterexample:
  "warning_tier ''GPU_HEALTH_WARNING''
   \<and> handle_gpu_error test_env test_world
        \<lparr>error_class = Some ''GPU_HEALTH_WARNING'', error_count = Some 1,
         error_gpu_id = Some 0\<rparr> ''node-1'' ''i-1'' =
       Inr \<lparr>store = Missing,
            calls = [Send_cloudwatch_metrics ''GPU_HEALTH_WARNING'' 1 ''node-1'' ''i-1''],
            outputs = [], ticks = 0\<rparr>
   \<and> warning_tier ''XID_WARNING_43''
   \<and> handle_gpu_error test_env test_world
        \<lparr>error_class = Some ''XID_WARNING_43'', error_count = Some 7, error_gpu_id = Some 0\<rparr>
        ''node-1'' ''i-1'' =
       Inr \<lparr>store = Content [(''i-1'', new_record (test_os 1000 Written) ''node-1''
                                 ''XID_WARNING_43'' 900)],
            calls = [Send_cloudwatch_metrics ''XID_WARNING_43'' 7 ''node-1'' ''i-1'',
                     Call_replace_script ''node-1'' ''i-1'' 900],
            outputs = [], ticks = 1\<rparr>"
  by (simp add: warning_tier_def error_classes_def handle_gpu_error_def dispatch_def
      exclusion_manager_add_def test_world_def test_env_def add_exclusion_def
      load_exclusions_def path_exists_def has_key_def timeout_or_default_def
      save_exclusions_def test_os_def)






text \<open>
  C4. For every resource id that has a record in the store, \<open>add_exclusion\<close> returns
  false and leaves the file as it was, whatever the arguments, the time and the fate of
  writes; so the record found for the resource afterwards is the one found before, with
  its \<open>start_time\<close> and \<open>timeout\<close>.
\<close>

theorem add_exclusion_existing:
  assumes "map_of (load_exclusions fs) rid = Some info"
  shows "add_exclusion mgr sys fs rid nd et t = (False, fs)
       \<and> map_of (load_exclusions (snd (add_exclusion mgr sys fs rid nd et t))) rid = Some info"
  using assms by (simp add: add_exclusion_def has_key_def)

theorem add_exclusion_existing_witness:
  "map_of (load_exclusions test_store) ''R1'' = Some test_info
   \<and> add_exclusion ExclusionManager_default (test_os 500 Written) test_store ''R1'' ''node-1''
        ''XID_ERROR'' (Some 200) = (False, test_store)
   \<and> start_time test_info = Some 0 \<and> timeout test_info = Some 900"
proof -
  have h: "map_of (load_exclusions test_store) ''R1'' = Some test_info"
    by (simp add: test_store_def)
  show ?thesis
    using h add_exclusion_existing [OF h, of ExclusionManager_default "test_os 500 Written"
        "''node-1''" "''XID_ERROR''" "Some 200"]
    by (simp add: test_info_def)
qed

text \<open>
  C5 (as amended). For every resource with a record started at \<open>s\<close> and lasting \<open>d\<close>,
  \<open>should_monitor\<close> at a time strictly after \<open>s + d\<close>, the sweep's write succeeding,
  returns \<open>(True, None)\<close> and the resource has no record in the file afterwards. And
  whenever \<open>should_monitor\<close> returns false, at any time and whatever happens to writes,
  the reason it gives is that of a record the file holds for the resource after the
  call.
\<close>

theorem should_monitor_expiry:
  assumes "map_of (load_exclusions fs) rid = Some info"
    and "start_time info = Some s" and "timeout info = Some d"
    and "s + real_of_int d < time_time sys"
    and "disk_write sys = Written"
  shows "fst (should_monitor mgr sys fs rid nd) = (True, None)
       \<and> map_of (load_exclusions (snd (should_monitor mgr sys fs rid nd))) rid = None
       \<and> (fst (should_monitor mgr sys2 fs2 rid2 nd2) = (False, r) \<longrightarrow>
            (\<exists>info2. map_of (load_exclusions (snd (should_monitor mgr sys2 fs2 rid2 nd2))) rid2
                        = Some info2
                     \<and> r = Some (skip_reason info2)))"
proof -
  let ?ks = "expired_instances mgr (time_time sys) (load_exclusions fs)"
  let ?d' = "fold AList.delete ?ks (load_exclusions fs)"
  from assms(2-4) have e: "expired mgr (time_time sys) info"
    by (simp add: expired_def)
  from assms(1) have "(rid, info) \<in> set (load_exclusions fs)"
    by (rule map_of_SomeD)
  with e have "rid \<in> set ?ks"
    by (force simp: expired_instances_def)
  then have "?ks \<noteq> []" by auto
  with assms(5) have c: "snd (cleanup_expired mgr sys fs) = Content ?d'"
    by (simp add: cleanup_expired_def Let_def)
  have n: "map_of ?d' rid = None"
    using assms(1) e by (rule map_of_swept)
  have sm: "should_monitor mgr sys fs rid nd = ((True, None), Content ?d')"
    using n by (simp add: should_monitor_def c is_excluded_def has_key_def)
  have second: "fst (should_monitor mgr sys2 fs2 rid2 nd2) = (False, r) \<longrightarrow>
            (\<exists>info2. map_of (load_exclusions (snd (should_monitor mgr sys2 fs2 rid2 nd2))) rid2
                        = Some info2
                     \<and> r = Some (skip_reason info2))"
    by (auto simp: should_monitor_def Let_def get_exclusion_info_def
        split: if_splits option.splits)
  show ?thesis using sm n second by simp
qed

theorem should_monitor_expiry_witness:
  "map_of (load_exclusions test_store) ''R1'' = Some test_info
   \<and> (0::real) + real_of_int 900 < time_time (test_os 901 Written)
   \<and> should_monitor ExclusionManager_default (test_os 901 Written) test_store ''R1'' ''node-1''
       = ((True, None), Content [])
   \<and> should_monitor ExclusionManager_default (test_os 500 Written) test_store ''R1'' ''node-1''
       = ((False, Some ''Reason: CRITICAL_X Handling in Progress (Exclusion Time: 1970-01-01 00:00:00)''),
          test_store)"
proof -
  have h1: "map_of (load_exclusions test_store) ''R1'' = Some test_info"
    by (simp add: test_store_def)
  have h2: "start_time test_info = Some 0" and h3: "timeout test_info = Some 900"
    by (simp_all add: test_info_def)
  have h4: "(0::real) + real_of_int 900 < time_time (test_os 901 Written)"
    by (simp add: test_os_def)
  have h5: "disk_write (test_os 901 Written) = Written"
    by (simp add: test_os_def)
  have a: "should_monitor ExclusionManager_default (test_os 901 Written) test_store ''R1''
      ''node-1'' = ((True, None), Content [])"
    by (simp add: should_monitor_def cleanup_expired_def expired_instances_def expired_def
        test_store_def test_info_def test_os_def save_exclusions_def Let_def is_excluded_def
        has_key_def)
  have b: "should_monitor ExclusionManager_default (test_os 500 Written) test_store ''R1''
      ''node-1'' = ((False, Some ''Reason: CRITICAL_X Handling in Progress (Exclusion Time: 1970-01-01 00:00:00)''),
          test_store)"
    by (simp add: should_monitor_def cleanup_expired_def expired_instances_def expired_def
        test_store_def test_info_def test_os_def save_exclusions_def Let_def is_excluded_def
        has_key_def get_exclusion_info_def info_truthy_def skip_reason_def get_str_def)
  show ?thesis
    using h1 h4 a b
      should_monitor_expiry [OF h1 h2 h3 h4 h5, of ExclusionManager_default "''node-1''"
        "test_os 500 Written" test_store "''R1''" "''node-1''"
        "Some ''Reason: CRITICAL_X Handling in Progress (Exclusion Time: 1970-01-01 00:00:00)''"]
    by simp
qed

text \<open>
  The claim as stated fails at the boundary: at time 900 exactly a record started at 0
  and lasting 900 is kept by the sweep, whose test is strict, and \<open>should_monitor\<close>
  answers false. It fails also well after the expiry (time 5000) when the sweep's write
  fails and the old file stays.
\<close>

theorem should_monitor_expiry_counterexample:
  "map_of (load_exclusions test_store) ''R1'' = Some test_info
   \<and> start_time test_info = Some 0 \<and> timeout test_info = Some 900
   \<and> (0::real) + real_of_int 900 \<le> time_time (test_os 900 Written)
   \<and> fst (should_monitor ExclusionManager_default (test_os 900 Written) test_store ''R1''
       ''node-1'') \<noteq> (True, None)
   \<and> (0::real) + real_of_int 900 \<le> time_time (test_os 5000 Open_Failed)
   \<and> fst (should_monitor ExclusionManager_default (test_os 5000 Open_Failed) test_store ''R1''
       ''node-1'') \<noteq> (True, None)"
  by (simp add: should_monitor_def cleanup_expired_def expired_instances_def expired_def
        test_store_def test_info_def test_os_def save_exclusions_def Let_def is_excluded_def
        has_key_def get_exclusion_info_def info_truthy_def)




text \<open>
  C7. For every resource whose metrics the classifier answers with the class
  \<open>HEALTHY\<close>, \<open>monitor_single_node\<close> returns normally having done nothing but the sweep of
  \<open>should_monitor\<close>: no request is made (no metric, no reboot, no replacement), the file
  is the one the sweep left, and no key is in it that was not there before. The policy
  itself, called on a \<open>HEALTHY\<close> descriptor, changes nothing either.
\<close>

theorem healthy_no_action:
  assumes "shell_query_dcgm_metrics e pod nd = (True, m)"
    and "parse_gpu_metric_info e m = Parse_dict pe"
    and "error_class pe = Some ''HEALTHY''"
  shows "calls (fst (monitor_single_node e w pod nd)) = calls w
       \<and> store (fst (monitor_single_node e w pod nd))
           = snd (cleanup_expired ExclusionManager_default (os_at e (ticks w)) (store w))
       \<and> fst ` set (load_exclusions (store (fst (monitor_single_node e w pod nd))))
           \<subseteq> fst ` set (load_exclusions (store w))
       \<and> (\<forall>x. snd (monitor_single_node e w pod nd) \<noteq> Inl x)
       \<and> handle_gpu_error e w
            \<lparr>error_class = Some ''HEALTHY'', error_count = Some n, error_gpu_id = g\<rparr>
            nd rid = Inr w"
proof -
  let ?w1 = "w\<lparr>store := snd (cleanup_expired ExclusionManager_default (os_at e (ticks w))
                           (store w)),
               ticks := Suc (ticks w)\<rparr>"
  have q: "query_dcgm_metrics e pod nd = Some m"
    using assms(1) by (simp add: query_dcgm_metrics_def)
  have p: "process_metrics_llm e m = Inr pe"
    using assms(2) by (simp add: process_metrics_llm_def)
  have f: "fst (monitor_single_node e w pod nd) = ?w1"
    using q p assms(3)
    by (simp add: monitor_single_node_def Let_def should_monitor_store)
  have r: "\<forall>x. snd (monitor_single_node e w pod nd) \<noteq> Inl x"
    using q p assms(3)
    by (cases "m = []") (simp_all add: monitor_single_node_def Let_def)
  show ?thesis
    using r cleanup_keys_subset [of ExclusionManager_default "os_at e (ticks w)" "store w"]
    by (simp add: f handle_gpu_error_healthy)
qed

theorem healthy_no_action_witness:
  "shell_query_dcgm_metrics test_env ''pod-5'' ''node-5'' = (True, ''metrics-node-5'')
   \<and> parse_gpu_metric_info test_env ''metrics-node-5''
       = Parse_dict \<lparr>error_class = Some ''HEALTHY'', error_count = Some 0,
                     error_gpu_id = Some 0\<rparr>
   \<and> calls (fst (monitor_single_node test_env test_world ''pod-5'' ''node-5'')) = []
   \<and> store (fst (monitor_single_node test_env test_world ''pod-5'' ''node-5'')) = Missing"
proof -
  have h1: "shell_query_dcgm_metrics test_env ''pod-5'' ''node-5'' = (True, ''metrics-node-5'')"
    by (simp add: test_env_def)
  have h2: "parse_gpu_metric_info test_env ''metrics-node-5''
       = Parse_dict \<lparr>error_class = Some ''HEALTHY'', error_count = Some 0,
                     error_gpu_id = Some 0\<rparr>"
    by (simp add: test_env_def test_parse_def)
  have h3: "error_class \<lparr>error_class = Some ''HEALTHY'', error_count = Some 0,
                     error_gpu_id = Some (0::int)\<rparr> = Some ''HEALTHY''"
    by simp
  have c: "cleanup_expired ExclusionManager_default sys Missing = (0, Missing)" for sys
    by (simp add: cleanup_expired_def load_exclusions_def path_exists_def
        expired_instances_def)
  have w: "store test_world = Missing" "calls test_world = []"
    by (simp_all add: test_world_def)
  note th = healthy_no_action [OF h1 h2 h3, of test_world]
  show ?thesis
    using h1 h2 th by (simp add: w c)
qed

text \<open>
  C8. For every polling cycle, \<open>monitor_all_nodes\<close> returns normally, and its loop writes
  one line for each resource of the cycle (the separator, or the logged exception): no
  resource is left out. An exception raised while one resource is evaluated is logged
  with the node's name, and the loop goes on over the remaining resources from the state
  that evaluation left.
\<close>

theorem monitor_all_nodes_contained:
  "(\<exists>w'. monitor_all_nodes e w = Inr w'
         \<and> length (outputs w') = length (outputs w) + length (dcgm_pods_with_nodes e))
   \<and> (snd (monitor_single_node e w pod nd) = Inl x \<longrightarrow>
        monitor_loop e ((pod, nd) # ps) w =
          monitor_loop e ps
            ((fst (monitor_single_node e w pod nd))
               \<lparr>outputs := outputs (fst (monitor_single_node e w pod nd)) @ [Log_error nd x]\<rparr>))"
proof -
  have a: "\<exists>w'. monitor_all_nodes e w = Inr w'
         \<and> length (outputs w') = length (outputs w) + length (dcgm_pods_with_nodes e)"
  proof (cases "dcgm_pods_with_nodes e = []")
    case True
    then show ?thesis by (simp add: monitor_all_nodes_def)
  next
    case False
    then show ?thesis
      using monitor_loop_returns [of e "dcgm_pods_with_nodes e" w]
      by (simp add: monitor_all_nodes_def)
  qed
  have b: "monitor_loop e ((pod, nd) # ps) w =
          monitor_loop e ps
            ((fst (monitor_single_node e w pod nd))
               \<lparr>outputs := outputs (fst (monitor_single_node e w pod nd)) @ [Log_error nd x]\<rparr>)"
    if "snd (monitor_single_node e w pod nd) = Inl x"
    using that
    by (cases "monitor_single_node e w pod nd") (simp add: monitor_node_guarded_def)
  show ?thesis using a b by blast
qed

text \<open>
  A cycle over four resources: the fetch fails for the second (no exception: the
  evaluation returns false), the classifier raises for the third, and the first and the
  fourth are evaluated to their remediation.
\<close>

theorem monitor_all_nodes_contained_witness:
  "monitor_all_nodes test_env test_world =
     Inr \<lparr>store = Content
             [(''i-node-1'', new_record (test_os 1001 Written) ''node-1'' ''XID_ERROR'' 200),
              (''i-node-4'', new_record (test_os 1005 Written) ''node-4'' ''XID_ERROR'' 200)],
          calls = [Send_cloudwatch_metrics ''XID_ERROR'' 1 ''node-1'' ''i-node-1'',
                   Call_reboot_script ''node-1'' ''i-node-1'' 30 True,
                   Send_cloudwatch_metrics ''XID_ERROR'' 1 ''node-4'' ''i-node-4'',
                   Call_reboot_script ''node-4'' ''i-node-4'' 30 True],
          outputs = [Print_separator, Print_separator,
                     Log_error ''node-3'' (Raised ''read timeout''), Print_separator],
          ticks = 6\<rparr>
   \<and> snd (monitor_single_node test_env test_world ''pod-3'' ''node-3'')
       = Inl (Raised ''read timeout'')
   \<and> monitor_loop test_env [(''pod-3'', ''node-3''), (''pod-4'', ''node-4'')] test_world =
       monitor_loop test_env [(''pod-4'', ''node-4'')]
         \<lparr>store = Missing, calls = [],
          outputs = [Log_error ''node-3'' (Raised ''read timeout'')], ticks = 1\<rparr>"
proof -
  have n3: "monitor_single_node test_env test_world ''pod-3'' ''node-3''
      = (\<lparr>store = Missing, calls = [], outputs = [], ticks = 1\<rparr>,
         Inl (Raised ''read timeout''))"
    by (simp add: monitor_single_node_def Let_def test_env_def test_world_def
        get_instance_id_def should_monitor_def cleanup_expired_def expired_instances_def
        load_exclusions_def path_exists_def is_excluded_def has_key_def
        query_dcgm_metrics_def process_metrics_llm_def test_parse_def)
  have h: "snd (monitor_single_node test_env test_world ''pod-3'' ''node-3'')
      = Inl (Raised ''read timeout'')"
    by (simp add: n3)
  have whole: "monitor_all_nodes test_env test_world =
     Inr \<lparr>store = Content
             [(''i-node-1'', new_record (test_os 1001 Written) ''node-1'' ''XID_ERROR'' 200),
              (''i-node-4'', new_record (test_os 1005 Written) ''node-4'' ''XID_ERROR'' 200)],
          calls = [Send_cloudwatch_metrics ''XID_ERROR'' 1 ''node-1'' ''i-node-1'',
                   Call_reboot_script ''node-1'' ''i-node-1'' 30 True,
                   Send_cloudwatch_metrics ''XID_ERROR'' 1 ''node-4'' ''i-node-4'',
                   Call_reboot_script ''node-4'' ''i-node-4'' 30 True],
          outputs = [Print_separator, Print_separator,
                     Log_error ''node-3'' (Raised ''read timeout''), Print_separator],
          ticks = 6\<rparr>"
    by (simp add: monitor_all_nodes_def monitor_node_guarded_def
        monitor_single_node_def Let_def test_env_def test_world_def
        get_instance_id_def should_monitor_def cleanup_expired_def expired_instances_def
        expired_def load_exclusions_def path_exists_def is_excluded_def has_key_def
        get_exclusion_info_def
        query_dcgm_metrics_def process_metrics_llm_def test_parse_def
        handle_gpu_error_def dispatch_def exclusion_manager_add_def add_exclusion_def
        timeout_or_default_def save_exclusions_def test_os_def new_record_def
        ExclusionManager_default_def ExclusionManager_def)
  have go: "monitor_loop test_env ((''pod-3'', ''node-3'') # [(''pod-4'', ''node-4'')])
        test_world =
      monitor_loop test_env [(''pod-4'', ''node-4'')]
        ((fst (monitor_single_node test_env test_world ''pod-3'' ''node-3''))
           \<lparr>outputs := outputs (fst (monitor_single_node test_env test_world ''pod-3''
                ''node-3'')) @ [Log_error ''node-3'' (Raised ''read timeout'')]\<rparr>)"
    using monitor_all_nodes_contained [of test_env test_world "''pod-3''" "''node-3''"
        "Raised ''read timeout''" "[(''pod-4'', ''node-4'')]", THEN conjunct2] h
    by (rule mp)
  have go': "monitor_loop test_env [(''pod-3'', ''node-3''), (''pod-4'', ''node-4'')]
        test_world =
      monitor_loop test_env [(''pod-4'', ''node-4'')]
        \<lparr>store = Missing, calls = [],
         outputs = [Log_error ''node-3'' (Raised ''read timeout'')], ticks = 1\<rparr>"
    using go by (simp only: n3 fst_conv) simp
  show ?thesis using whole h go' by (simp only: simp_thms)
qed



text \<open>
  C10. For every call of \<open>add_exclusion\<close> that creates a record and whose timeout
  argument is \<open>None\<close> or 0, the record carries the manager's default timeout, which is
  1800 seconds for the manager built with the constructor's defaults; \<open>pause_instance\<close>
  does what \<open>add_exclusion\<close> does. Whenever the default is not negative, the record is
  not expired at the time of its creation.
\<close>

theorem omitted_timeout_default:
  assumes "t = None \<or> t = Some 0"
    and "fst (add_exclusion mgr sys fs rid nd et t)"
  shows "pause_instance mgr sys fs rid nd et t = add_exclusion mgr sys fs rid nd et t
       \<and> map_of (load_exclusions (snd (add_exclusion mgr sys fs rid nd et t))) rid
           = Some (new_record sys nd et (default_timeout mgr))
       \<and> timeout (new_record sys nd et (default_timeout mgr)) = Some (default_timeout mgr)
       \<and> default_timeout ExclusionManager_default = 1800
       \<and> (0 \<le> default_timeout mgr \<longrightarrow>
            \<not> expired mgr (time_time sys) (new_record sys nd et (default_timeout mgr)))"
proof -
  have p: "pause_instance mgr sys fs rid nd et t = add_exclusion mgr sys fs rid nd et t"
    by (simp add: pause_instance_def prod_eq_iff)
  from assms(1) have td: "timeout_or_default mgr t = default_timeout mgr"
    by (auto simp: timeout_or_default_def)
  have nk: "\<not> has_key (load_exclusions fs) rid" and w: "disk_write sys = Written"
    using assms(2) by (simp_all add: add_exclusion_succeeds)
  have m: "map_of (load_exclusions (snd (add_exclusion mgr sys fs rid nd et t))) rid
           = Some (new_record sys nd et (default_timeout mgr))"
    using add_exclusion_fresh [OF nk w, of mgr nd et t] by (simp only: td)
  show ?thesis
    using p m
    by (simp add: new_record_def expired_def ExclusionManager_default_def
        ExclusionManager_def)
qed

theorem omitted_timeout_default_witness:
  "fst (add_exclusion ExclusionManager_default (test_os 1000 Written) Missing ''R1'' ''node-1''
        ''MANUAL_PAUSE'' (Some 0))
   \<and> pause_instance ExclusionManager_default (test_os 1000 Written) Missing ''R1'' ''node-1''
        ''MANUAL_PAUSE'' (Some 0)
      = (True, Content [(''R1'', new_record (test_os 1000 Written) ''node-1'' ''MANUAL_PAUSE''
            1800)])
   \<and> timeout (new_record (test_os 1000 Written) ''node-1'' ''MANUAL_PAUSE'' 1800) = Some 1800
   \<and> \<not> expired ExclusionManager_default 1000
         (new_record (test_os 1000 Written) ''node-1'' ''MANUAL_PAUSE'' 1800)"
proof -
  have h1: "Some (0::int) = None \<or> Some (0::int) = Some 0" by simp
  have a: "add_exclusion ExclusionManager_default (test_os 1000 Written) Missing ''R1''
      ''node-1'' ''MANUAL_PAUSE'' (Some 0)
      = (True, Content [(''R1'', new_record (test_os 1000 Written) ''node-1'' ''MANUAL_PAUSE''
            1800)])"
    by (simp add: add_exclusion_def load_exclusions_def path_exists_def has_key_def
        timeout_or_default_def ExclusionManager_default_def ExclusionManager_def
        save_exclusions_def test_os_def)
  have h2: "fst (add_exclusion ExclusionManager_default (test_os 1000 Written) Missing ''R1''
      ''node-1'' ''MANUAL_PAUSE'' (Some 0))"
    by (simp add: a)
  have d: "default_timeout ExclusionManager_default = 1800"
    by (simp add: ExclusionManager_default_def ExclusionManager_def)
  have tt: "time_time (test_os 1000 Written) = 1000"
    by (simp add: test_os_def)
  note th = omitted_timeout_default [OF h1 h2, unfolded d tt]
  have p: "pause_instance ExclusionManager_default (test_os 1000 Written) Missing ''R1''
      ''node-1'' ''MANUAL_PAUSE'' (Some 0)
      = (True, Content [(''R1'', new_record (test_os 1000 Written) ''node-1'' ''MANUAL_PAUSE''
            1800)])"
    using th a by (simp only:)
  have q: "timeout (new_record (test_os 1000 Written) ''node-1'' ''MANUAL_PAUSE'' 1800)
      = Some 1800"
    using th by (simp only:)
  have r: "\<not> expired ExclusionManager_default 1000
         (new_record (test_os 1000 Written) ''node-1'' ''MANUAL_PAUSE'' 1800)"
    using th by simp
  show ?thesis using h2 p q r by (simp only: simp_thms)
qed

end
